theory Spec2Isabelle
  imports Main "HOL-Library.Word"
begin

section \<open>frfix.c: an LD_PRELOAD shim for ALSA and GLUT entry points\<close>

text \<open>
  The shim is embedded as it is built with both feature groups compiled in
  (\<^verbatim>\<open>-DFIXDELAY=n\<close> and \<^verbatim>\<open>-DCHANGERES\<close>) and for the documented build line
  \<^verbatim>\<open>gcc -m32\<close>: \<^verbatim>\<open>int\<close> and \<^verbatim>\<open>long\<close> are both 32 bits wide.  Integer values are
  HOL integers; every signed operation of the source whose result may leave the range of
  its C type is guarded, and leaving the range (undefined behaviour in C) is an error
  value of the model.  A call through a null function pointer is an error value as well.

  Everything outside the shim (the dynamic loader, ALSA, GLUT, the application's
  callbacks) is not executed: each interaction is appended to a trace, and the answers
  of the outside world are taken from an environment, which may let them depend on the
  whole history of interactions.  What a callee does to the shim in turn (an application
  callback that calls an interposed function) is a further entry of the run.
\<close>

subsection \<open>Values, events, errors\<close>

type_synonym ptr = nat

datatype fptr = NULL | Addr nat

text \<open>The shim's own functions whose address it hands to the real libraries.\<close>

datatype handler =
  Fake_callback | Init_manglers | Faked_kbfunc | Faked_mousefunc | Faked_motionfunc

datatype val = VInt int | VPtr ptr | VStr string | VOwn handler

datatype event =
    Dlsym string fptr
  | Call fptr "val list"
  | Get_pcm ptr ptr
  | Avail_delay ptr int int int
  | Printf_delay int
  | LeaveMainLoop
  | FullScreen

datatype error = NullCall | SignedOverflow

subsection \<open>Machine arithmetic\<close>

definition INT_MIN :: int where "INT_MIN = - 2147483648"
definition INT_MAX :: int where "INT_MAX = 2147483647"
definition LONG_MIN :: int where "LONG_MIN = - 2147483648"
definition LONG_MAX :: int where "LONG_MAX = 2147483647"

definition is_int :: "int \<Rightarrow> bool" where
  "is_int a = (INT_MIN \<le> a \<and> a \<le> INT_MAX)"

definition is_long :: "int \<Rightarrow> bool" where
  "is_long a = (LONG_MIN \<le> a \<and> a \<le> LONG_MAX)"

text \<open>\<^verbatim>\<open>a * b\<close> in type \<^verbatim>\<open>int\<close>.\<close>

definition int_mul :: "int \<Rightarrow> int \<Rightarrow> error + int" where
  "int_mul a b = (if is_int (a * b) then Inr (a * b) else Inl SignedOverflow)"

text \<open>\<^verbatim>\<open>a - b\<close> in type \<^verbatim>\<open>long\<close>.\<close>

definition long_sub :: "int \<Rightarrow> int \<Rightarrow> error + int" where
  "long_sub a b = (if is_long (a - b) then Inr (a - b) else Inl SignedOverflow)"

text \<open>C division truncates towards zero; the divisors of the source are the constants
  9, 16 and 2.\<close>

definition c_div :: "int \<Rightarrow> int \<Rightarrow> int" where
  "c_div a b = (if (a < 0) = (b < 0) then \<bar>a\<bar> div \<bar>b\<bar> else - (\<bar>a\<bar> div \<bar>b\<bar>))"

subsection \<open>Process-wide state and the outside world\<close>

text \<open>One cache slot per \<^verbatim>\<open>static\<close> function pointer of the source.\<close>

datatype slot =
    Real_snd_pcm_open
  | Real_snd_async_add_pcm_handler
  | Glvp
  | Real_glutReshapeFunc
  | Glrw
  | Real_glutKeyboardFunc
  | Real_glutMouseFunc
  | Real_glutPassiveMotionFunc

fun symbol :: "slot \<Rightarrow> string" where
  "symbol Real_snd_pcm_open = ''snd_pcm_open''"
| "symbol Real_snd_async_add_pcm_handler = ''snd_async_add_pcm_handler''"
| "symbol Glvp = ''glViewport''"
| "symbol Real_glutReshapeFunc = ''glutReshapeFunc''"
| "symbol Glrw = ''glutReshapeWindow''"
| "symbol Real_glutKeyboardFunc = ''glutKeyboardFunc''"
| "symbol Real_glutMouseFunc = ''glutMouseFunc''"
| "symbol Real_glutPassiveMotionFunc = ''glutPassiveMotionFunc''"

record state =
  cache :: "slot \<Rightarrow> fptr"
  fr_callback :: fptr
  act_w :: int
  act_h :: int
  act_xoff :: int
  act_yoff :: int
  fs :: "8 word"
  fr_kbfunc :: fptr
  fr_mousefunc :: fptr
  fr_motionfunc :: fptr
  trace :: "event list"

text \<open>Objects with static storage duration start as zero.\<close>

definition init_state :: state where
  "init_state = \<lparr> cache = (\<lambda>k. NULL), fr_callback = NULL,
     act_w = 0, act_h = 0, act_xoff = 0, act_yoff = 0, fs = 0,
     fr_kbfunc = NULL, fr_mousefunc = NULL, fr_motionfunc = NULL, trace = [] \<rparr>"

text \<open>
  The outside world.  \<open>dlsym\<close> answers \<^verbatim>\<open>dlsym(RTLD_NEXT, name)\<close>; \<open>returns\<close> is the
  \<^verbatim>\<open>int\<close> an external function returns; \<open>snd_pcm_avail_delay\<close> gives the return
  code and the contents of the locals \<^verbatim>\<open>avail\<close> and \<^verbatim>\<open>delay\<close> after the query (when
  the query fails these are whatever the uninitialised locals held).  \<open>FIXDELAY\<close> and
  \<open>LOGDELAY\<close> are the compile-time macros; \<open>FIXDELAY\<close> is an integer constant.
\<close>

record env =
  dlsym :: "event list \<Rightarrow> string \<Rightarrow> fptr"
  returns :: "event list \<Rightarrow> fptr \<Rightarrow> val list \<Rightarrow> int"
  snd_async_handler_get_pcm :: "event list \<Rightarrow> ptr \<Rightarrow> ptr"
  snd_pcm_avail_delay :: "event list \<Rightarrow> ptr \<Rightarrow> int \<times> int \<times> int"
  FIXDELAY :: int
  LOGDELAY :: bool

definition emit :: "event \<Rightarrow> state \<Rightarrow> state" where
  "emit e s = s\<lparr>trace := trace s @ [e]\<rparr>"

text \<open>\<^verbatim>\<open>if (!real_func) real_func = dlsym(RTLD_NEXT, "...");\<close>\<close>

definition resolve :: "env \<Rightarrow> slot \<Rightarrow> state \<Rightarrow> state" where
  "resolve env k s =
     (if cache s k = NULL
      then (let r = dlsym env (trace s) (symbol k)
            in emit (Dlsym (symbol k) r) (s\<lparr>cache := (cache s)(k := r)\<rparr>))
      else s)"

text \<open>A call through a function pointer.\<close>

definition call :: "fptr \<Rightarrow> val list \<Rightarrow> state \<Rightarrow> error + state" where
  "call f args s = (case f of NULL \<Rightarrow> Inl NullCall | Addr a \<Rightarrow> Inr (emit (Call f args) s))"

subsection \<open>Audio device redirector\<close>

definition snd_pcm_open ::
  "env \<Rightarrow> ptr \<Rightarrow> string \<Rightarrow> int \<Rightarrow> int \<Rightarrow> state \<Rightarrow> error + (int \<times> state)" where
  "snd_pcm_open env pcm name stream mode s0 =
     (let s = resolve env Real_snd_pcm_open s0;
          real_func = cache s Real_snd_pcm_open;
          args = [VPtr pcm, VStr ''default'', VInt stream, VInt mode]
      in case call real_func args s of
           Inl e \<Rightarrow> Inl e
         | Inr s' \<Rightarrow> Inr (returns env (trace s) real_func args, s'))"

subsection \<open>Underrun-triggered callback wrapper\<close>

definition fake_callback :: "env \<Rightarrow> ptr \<Rightarrow> state \<Rightarrow> error + state" where
  "fake_callback env ahandler s0 =
     (let pcm = snd_async_handler_get_pcm env (trace s0) ahandler;
          s1 = emit (Get_pcm ahandler pcm) s0;
          (rc, avail, delay) = snd_pcm_avail_delay env (trace s1) pcm;
          s2 = emit (Avail_delay pcm rc avail delay) s1;
          s3 = (if LOGDELAY env then emit (Printf_delay delay) s2 else s2)
      in if delay < FIXDELAY env then call (fr_callback s3) [VPtr ahandler] s3 else Inr s3)"

definition snd_async_add_pcm_handler ::
  "env \<Rightarrow> ptr \<Rightarrow> ptr \<Rightarrow> fptr \<Rightarrow> ptr \<Rightarrow> state \<Rightarrow> error + (int \<times> state)" where
  "snd_async_add_pcm_handler env handler pcm callback private_data s0 =
     (let s = resolve env Real_snd_async_add_pcm_handler s0;
          real_func = cache s Real_snd_async_add_pcm_handler;
          s1 = s\<lparr>fr_callback := callback\<rparr>;
          args = [VPtr handler, VPtr pcm, VOwn Fake_callback, VPtr private_data]
      in case call real_func args s1 of
           Inl e \<Rightarrow> Inl e
         | Inr s' \<Rightarrow> Inr (returns env (trace s1) real_func args, s'))"

subsection \<open>Display and input remapping\<close>

definition init_manglers :: "env \<Rightarrow> int \<Rightarrow> int \<Rightarrow> state \<Rightarrow> error + state" where
  "init_manglers env w h s0 =
     (let s = resolve env Glvp s0 in
      case int_mul h 16 of
        Inl e \<Rightarrow> Inl e
      | Inr h16 \<Rightarrow>
         (case
            (if w = c_div h16 9 then
               Inr (s\<lparr>act_w := w, act_h := h, act_yoff := 0, act_xoff := 0\<rparr>)
             else if w < c_div h16 9 then
               (case int_mul w 9 of
                  Inl e \<Rightarrow> Inl e
                | Inr w9 \<Rightarrow>
                   (case long_sub h (c_div w9 16) of
                      Inl e \<Rightarrow> Inl e
                    | Inr d \<Rightarrow>
                       Inr (s\<lparr>act_w := w, act_h := c_div w9 16,
                              act_yoff := c_div d 2, act_xoff := 0\<rparr>)))
             else
               (case long_sub w (c_div h16 9) of
                  Inl e \<Rightarrow> Inl e
                | Inr d \<Rightarrow>
                   Inr (s\<lparr>act_w := c_div h16 9, act_h := h,
                          act_yoff := 0, act_xoff := c_div d 2\<rparr>)))
          of
            Inl e \<Rightarrow> Inl e
          | Inr s1 \<Rightarrow>
             call (cache s1 Glvp)
               [VInt (act_xoff s1), VInt (act_yoff s1), VInt (act_w s1), VInt (act_h s1)] s1))"

definition glutReshapeFunc :: "env \<Rightarrow> fptr \<Rightarrow> state \<Rightarrow> error + state" where
  "glutReshapeFunc env func s0 =
     (let s = resolve env Real_glutReshapeFunc s0
      in call (cache s Real_glutReshapeFunc) [VOwn Init_manglers] s)"

definition glViewport :: "int \<Rightarrow> int \<Rightarrow> int \<Rightarrow> int \<Rightarrow> state \<Rightarrow> error + state" where
  "glViewport x y width height s = Inr s"

definition glutReshapeWindow :: "int \<Rightarrow> int \<Rightarrow> state \<Rightarrow> error + state" where
  "glutReshapeWindow width height s = Inr s"

definition faked_kbfunc :: "env \<Rightarrow> char \<Rightarrow> int \<Rightarrow> int \<Rightarrow> state \<Rightarrow> error + state" where
  "faked_kbfunc env key x y s0 =
     (let s = resolve env Glrw s0 in
      if key = CHR ''q'' then Inr (emit LeaveMainLoop s)
      else if key = CHR ''f'' then
        (if fs s \<noteq> 0 then
           (case call (cache s Glrw) [VInt 1280, VInt 720] s of
              Inl e \<Rightarrow> Inl e
            | Inr s1 \<Rightarrow> Inr (s1\<lparr>fs := 0\<rparr>))
         else Inr ((emit FullScreen s)\<lparr>fs := 1\<rparr>))
      else call (fr_kbfunc s) [VInt (of_char key), VInt x, VInt y] s)"

definition glutKeyboardFunc :: "env \<Rightarrow> fptr \<Rightarrow> state \<Rightarrow> error + state" where
  "glutKeyboardFunc env func s0 =
     (let s = resolve env Real_glutKeyboardFunc s0;
          s1 = s\<lparr>fr_kbfunc := func\<rparr>
      in call (cache s1 Real_glutKeyboardFunc) [VOwn Faked_kbfunc] s1)"

definition faked_mousefunc :: "int \<Rightarrow> int \<Rightarrow> int \<Rightarrow> int \<Rightarrow> state \<Rightarrow> error + state" where
  "faked_mousefunc button bstate x y s =
     (case long_sub x (act_xoff s) of
        Inl e \<Rightarrow> Inl e
      | Inr x' \<Rightarrow>
         (case long_sub y (act_yoff s) of
            Inl e \<Rightarrow> Inl e
          | Inr y' \<Rightarrow> call (fr_mousefunc s) [VInt button, VInt bstate, VInt x', VInt y'] s))"

definition faked_motionfunc :: "int \<Rightarrow> int \<Rightarrow> state \<Rightarrow> error + state" where
  "faked_motionfunc x y s =
     (case long_sub x (act_xoff s) of
        Inl e \<Rightarrow> Inl e
      | Inr x' \<Rightarrow>
         (case long_sub y (act_yoff s) of
            Inl e \<Rightarrow> Inl e
          | Inr y' \<Rightarrow> call (fr_motionfunc s) [VInt x', VInt y'] s))"

definition glutMouseFunc :: "env \<Rightarrow> fptr \<Rightarrow> state \<Rightarrow> error + state" where
  "glutMouseFunc env func s0 =
     (let s = resolve env Real_glutMouseFunc s0;
          s1 = s\<lparr>fr_mousefunc := func\<rparr>
      in call (cache s1 Real_glutMouseFunc) [VOwn Faked_mousefunc] s1)"

definition glutPassiveMotionFunc :: "env \<Rightarrow> fptr \<Rightarrow> state \<Rightarrow> error + state" where
  "glutPassiveMotionFunc env func s0 =
     (let s = resolve env Real_glutPassiveMotionFunc s0;
          s1 = s\<lparr>fr_motionfunc := func\<rparr>
      in call (cache s1 Real_glutPassiveMotionFunc) [VOwn Faked_motionfunc] s1)"

subsection \<open>Runs of the process\<close>

text \<open>An entry into the shim: an interposed function called by the application, or one
  of the shim's handlers called back by ALSA or GLUT.\<close>

datatype entry =
    Snd_pcm_open ptr string int int
  | Fake_callback_entry ptr
  | Snd_async_add_pcm_handler ptr ptr fptr ptr
  | Init_manglers_entry int int
  | GlutReshapeFunc fptr
  | GlViewport int int int int
  | GlutReshapeWindow int int
  | Faked_kbfunc_entry char int int
  | GlutKeyboardFunc fptr
  | Faked_mousefunc_entry int int int int
  | Faked_motionfunc_entry int int
  | GlutMouseFunc fptr
  | GlutPassiveMotionFunc fptr

fun exec :: "env \<Rightarrow> entry \<Rightarrow> state \<Rightarrow> error + state" where
  "exec env (Snd_pcm_open pcm name stream mode) s =
     map_sum id snd (snd_pcm_open env pcm name stream mode s)"
| "exec env (Fake_callback_entry ahandler) s = fake_callback env ahandler s"
| "exec env (Snd_async_add_pcm_handler handler pcm callback private_data) s =
     map_sum id snd (snd_async_add_pcm_handler env handler pcm callback private_data s)"
| "exec env (Init_manglers_entry w h) s = init_manglers env w h s"
| "exec env (GlutReshapeFunc func) s = glutReshapeFunc env func s"
| "exec env (GlViewport x y width height) s = glViewport x y width height s"
| "exec env (GlutReshapeWindow width height) s = glutReshapeWindow width height s"
| "exec env (Faked_kbfunc_entry key x y) s = faked_kbfunc env key x y s"
| "exec env (GlutKeyboardFunc func) s = glutKeyboardFunc env func s"
| "exec env (Faked_mousefunc_entry button bstate x y) s = faked_mousefunc button bstate x y s"
| "exec env (Faked_motionfunc_entry x y) s = faked_motionfunc x y s"
| "exec env (GlutMouseFunc func) s = glutMouseFunc env func s"
| "exec env (GlutPassiveMotionFunc func) s = glutPassiveMotionFunc env func s"

fun run :: "env \<Rightarrow> entry list \<Rightarrow> state \<Rightarrow> error + state" where
  "run env [] s = Inr s"
| "run env (c # cs) s = (case exec env c s of Inl e \<Rightarrow> Inl e | Inr s' \<Rightarrow> run env cs s')"

subsection \<open>Observations on traces\<close>

text \<open>The events a step appended to the trace.\<close>

definition new_events :: "state \<Rightarrow> state \<Rightarrow> event list" where
  "new_events s s' = drop (length (trace s)) (trace s')"

fun is_lookup :: "event \<Rightarrow> bool" where
  "is_lookup (Dlsym n r) = True"
| "is_lookup _ = False"

fun is_lookup_of :: "string \<Rightarrow> event \<Rightarrow> bool" where
  "is_lookup_of n (Dlsym m r) = (m = n)"
| "is_lookup_of n _ = False"

fun is_query :: "event \<Rightarrow> bool" where
  "is_query (Avail_delay pcm rc avail delay) = True"
| "is_query _ = False"

fun is_call :: "event \<Rightarrow> bool" where
  "is_call (Call f args) = True"
| "is_call _ = False"



text \<open>The pointer an interposed function calls through: its slot after the lazy
  resolution.\<close>

definition resolved :: "env \<Rightarrow> state \<Rightarrow> slot \<Rightarrow> fptr" where
  "resolved env s k = cache (resolve env k s) k"

text \<open>A lookup of symbol \<open>n\<close> that fills a slot (its answer is not null).\<close>

fun populates :: "string \<Rightarrow> event \<Rightarrow> bool" where
  "populates n (Dlsym m r) = (m = n \<and> r \<noteq> NULL)"
| "populates n _ = False"


fun is_resize :: "entry \<Rightarrow> bool" where
  "is_resize (Init_manglers_entry w h) = True"
| "is_resize _ = False"

text \<open>A stretch of execution that leaves the cache alone and performs no lookup.\<close>

definition quiet :: "state \<Rightarrow> state \<Rightarrow> bool" where
  "quiet s s' \<longleftrightarrow>
     cache s' = cache s \<and> (\<exists>evs. trace s' = trace s @ evs \<and> filter is_lookup evs = [])"

text \<open>The lookups that filled slot \<open>k\<close> so far: none while the slot is empty, afterwards
  exactly the one whose answer the slot holds.\<close>

definition once :: "slot \<Rightarrow> state \<Rightarrow> bool" where
  "once k s \<longleftrightarrow>
     filter (populates (symbol k)) (trace s) =
       (if cache s k = NULL then [] else [Dlsym (symbol k) (cache s k)])"

text \<open>A sample outside world for concrete runs: every symbol resolves, the device
  reports a delay of 100 frames, and the threshold is the documented default 1024.\<close>

definition test_env :: env where
  "test_env = \<lparr> dlsym = (\<lambda>hist name. Addr 1),
     returns = (\<lambda>hist f args. 0),
     snd_async_handler_get_pcm = (\<lambda>hist ahandler. Suc ahandler),
     snd_pcm_avail_delay = (\<lambda>hist pcm. (0, 512, 100)),
     FIXDELAY = 1024, LOGDELAY = False \<rparr>"

text \<open>A state in which every slot is filled and the fullscreen flag is on.\<close>

definition warm_state :: state where
  "warm_state = init_state\<lparr>cache := (\<lambda>k. Addr 1), fs := 1\<rparr>"

section \<open>Basic facts\<close>

lemma c_div_nonneg: "0 \<le> a \<Longrightarrow> 0 < b \<Longrightarrow> c_div a b = a div b"
  by (simp add: c_div_def)

lemma resolve_fields [simp]:
  "fr_callback (resolve env k s) = fr_callback s"
  "act_w (resolve env k s) = act_w s"
  "act_h (resolve env k s) = act_h s"
  "act_xoff (resolve env k s) = act_xoff s"
  "act_yoff (resolve env k s) = act_yoff s"
  "fs (resolve env k s) = fs s"
  "fr_kbfunc (resolve env k s) = fr_kbfunc s"
  "fr_mousefunc (resolve env k s) = fr_mousefunc s"
  "fr_motionfunc (resolve env k s) = fr_motionfunc s"
  by (simp_all add: resolve_def emit_def Let_def)

lemma emit_fields [simp]:
  "cache (emit e s) = cache s"
  "fr_callback (emit e s) = fr_callback s"
  "act_w (emit e s) = act_w s"
  "act_h (emit e s) = act_h s"
  "act_xoff (emit e s) = act_xoff s"
  "act_yoff (emit e s) = act_yoff s"
  "fs (emit e s) = fs s"
  "fr_kbfunc (emit e s) = fr_kbfunc s"
  "fr_mousefunc (emit e s) = fr_mousefunc s"
  "fr_motionfunc (emit e s) = fr_motionfunc s"
  "trace (emit e s) = trace s @ [e]"
  by (simp_all add: emit_def)

lemma call_ok: "f \<noteq> NULL \<Longrightarrow> call f args s = Inr (emit (Call f args) s)"
  by (cases f) (simp_all add: call_def)

lemma trace_resolve:
  "trace (resolve env k s) =
     trace s @ (if cache s k = NULL then [Dlsym (symbol k) (dlsym env (trace s) (symbol k))] else [])"
  by (simp add: resolve_def Let_def)

lemma resolve_cached: "cache s k \<noteq> NULL \<Longrightarrow> resolve env k s = s"
  by (simp add: resolve_def)

lemma symbol_inj: "symbol k = symbol k' \<longleftrightarrow> k = k'"
  by (cases k; cases k'; simp)

lemmas arith_defs =
  int_mul_def long_sub_def is_int_def is_long_def INT_MIN_def INT_MAX_def LONG_MIN_def LONG_MAX_def

lemmas shim_defs =
  snd_pcm_open_def fake_callback_def snd_async_add_pcm_handler_def init_manglers_def
  glutReshapeFunc_def glViewport_def glutReshapeWindow_def faked_kbfunc_def
  glutKeyboardFunc_def faked_mousefunc_def faked_motionfunc_def glutMouseFunc_def
  glutPassiveMotionFunc_def resolve_def call_def emit_def Let_def

section \<open>The geometry computed by the resize handler\<close>

text \<open>The three branches of \<open>init_manglers\<close> on window sizes for which no operation
  overflows.\<close>

lemma init_manglers_exact:
  assumes "0 < w" "is_int w" "0 < h" "h \<le> 134217727" "resolved env s Glvp \<noteq> NULL"
    and "w = h * 16 div 9"
  shows "init_manglers env w h s =
     Inr (emit (Call (resolved env s Glvp) [VInt 0, VInt 0, VInt w, VInt h])
            ((resolve env Glvp s)\<lparr>act_w := w, act_h := h, act_yoff := 0, act_xoff := 0\<rparr>))"
proof -
  have h16: "int_mul h 16 = Inr (h * 16)"
    using assms by (simp add: arith_defs)
  have d9: "c_div (h * 16) 9 = h * 16 div 9"
    using assms by (simp add: c_div_nonneg)
  show ?thesis using assms(5,6) h16 d9
    by (simp add: init_manglers_def Let_def call_ok resolved_def)
qed

lemma init_manglers_narrow:
  assumes "0 < w" "is_int w" "0 < h" "h \<le> 134217727" "resolved env s Glvp \<noteq> NULL"
    and "w < h * 16 div 9"
  shows "init_manglers env w h s =
     Inr (emit (Call (resolved env s Glvp)
                  [VInt 0, VInt ((h - w * 9 div 16) div 2), VInt w, VInt (w * 9 div 16)])
            ((resolve env Glvp s)\<lparr>act_w := w, act_h := w * 9 div 16,
               act_yoff := (h - w * 9 div 16) div 2, act_xoff := 0\<rparr>))"
proof -
  have h16: "int_mul h 16 = Inr (h * 16)"
    using assms by (simp add: arith_defs)
  have d9: "c_div (h * 16) 9 = h * 16 div 9"
    using assms by (simp add: c_div_nonneg)
  have w9: "int_mul w 9 = Inr (w * 9)"
    using assms by (simp add: arith_defs)
  have d16: "c_div (w * 9) 16 = w * 9 div 16"
    using assms by (simp add: c_div_nonneg)
  have le: "w * 9 div 16 \<le> h" "0 \<le> w * 9 div 16" using assms by auto
  have sub: "long_sub h (w * 9 div 16) = Inr (h - w * 9 div 16)"
    using le assms by (simp add: arith_defs)
  have d2: "c_div (h - w * 9 div 16) 2 = (h - w * 9 div 16) div 2"
    using le by (simp add: c_div_nonneg)
  show ?thesis using assms(5,6) h16 d9 w9 d16 sub d2
    by (simp add: init_manglers_def Let_def call_ok resolved_def)
qed

lemma init_manglers_wide:
  assumes "0 < w" "is_int w" "0 < h" "h \<le> 134217727" "resolved env s Glvp \<noteq> NULL"
    and "h * 16 div 9 < w"
  shows "init_manglers env w h s =
     Inr (emit (Call (resolved env s Glvp)
                  [VInt ((w - h * 16 div 9) div 2), VInt 0, VInt (h * 16 div 9), VInt h])
            ((resolve env Glvp s)\<lparr>act_w := h * 16 div 9, act_h := h,
               act_yoff := 0, act_xoff := (w - h * 16 div 9) div 2\<rparr>))"
proof -
  have h16: "int_mul h 16 = Inr (h * 16)"
    using assms by (simp add: arith_defs)
  have d9: "c_div (h * 16) 9 = h * 16 div 9"
    using assms by (simp add: c_div_nonneg)
  have le: "0 \<le> h * 16 div 9" using assms by auto
  have sub: "long_sub w (h * 16 div 9) = Inr (w - h * 16 div 9)"
    using le assms by (simp add: arith_defs)
  have d2: "c_div (w - h * 16 div 9) 2 = (w - h * 16 div 9) div 2"
    using le assms by (simp add: c_div_nonneg)
  show ?thesis using assms(5,6) h16 d9 sub d2
    by (simp add: init_manglers_def Let_def call_ok resolved_def)
qed

lemma test_env_resolves: "resolved test_env init_state k \<noteq> NULL"
  by (simp add: resolved_def resolve_def test_env_def init_state_def Let_def)

text \<open>
  C1, as amended.  For every window size \<open>(w, h)\<close> with \<open>w\<close> a positive \<^verbatim>\<open>int\<close> and
  \<open>0 < h \<le> 134217727\<close> (so that \<^verbatim>\<open>h * 16\<close> fits a 32-bit \<^verbatim>\<open>int\<close>), and with the real
  \<^verbatim>\<open>glViewport\<close> resolving, the resize handler returns and stores a rectangle whose
  sides are in the ratio 16:9 up to the truncation of one integer division (one side is
  the truncated quotient computed from the other, and \<open>\<bar>9 * act_w - 16 * act_h\<bar> < 16\<close>),
  which fits inside the window and is centred on both axes with integer division.
\<close>

theorem init_manglers_aspect_fit:
  assumes "0 < w" "is_int w" "0 < h" "h \<le> 134217727" "resolved env s Glvp \<noteq> NULL"
  shows "\<exists>s'. init_manglers env w h s = Inr s'
     \<and> (act_w s' = act_h s' * 16 div 9 \<or> act_h s' = act_w s' * 9 div 16)
     \<and> \<bar>9 * act_w s' - 16 * act_h s'\<bar> < 16
     \<and> act_xoff s' + act_w s' \<le> w \<and> act_yoff s' + act_h s' \<le> h
     \<and> act_xoff s' = (w - act_w s') div 2 \<and> act_yoff s' = (h - act_h s') div 2"
proof -
  consider (exact) "w = h * 16 div 9" | (narrow) "w < h * 16 div 9" | (wide) "h * 16 div 9 < w"
    by linarith
  then show ?thesis
  proof cases
    case exact
    have "\<bar>9 * (h * 16 div 9) - 16 * h\<bar> < 16" by arith
    then show ?thesis
      unfolding init_manglers_exact [OF assms exact] using exact by simp
  next
    case narrow
    have a: "\<bar>9 * w - 16 * (w * 9 div 16)\<bar> < 16" by arith
    have b: "(h - w * 9 div 16) div 2 + w * 9 div 16 \<le> h" using narrow by arith
    show ?thesis
      unfolding init_manglers_narrow [OF assms narrow] using a b by simp
  next
    case wide
    have a: "\<bar>9 * (h * 16 div 9) - 16 * h\<bar> < 16" by arith
    have b: "(w - h * 16 div 9) div 2 + h * 16 div 9 \<le> w" using wide by arith
    show ?thesis
      unfolding init_manglers_wide [OF assms wide] using a b by simp
  qed
qed

text \<open>The amended statement at the window 1366 x 768 of a fresh process.\<close>

theorem init_manglers_aspect_fit_witness:
  "(0::int) < 1366 \<and> is_int 1366 \<and> (0::int) < 768 \<and> (768::int) \<le> 134217727
   \<and> resolved test_env init_state Glvp \<noteq> NULL
   \<and> (\<exists>s'. init_manglers test_env 1366 768 init_state = Inr s'
     \<and> (act_w s' = act_h s' * 16 div 9 \<or> act_h s' = act_w s' * 9 div 16)
     \<and> \<bar>9 * act_w s' - 16 * act_h s'\<bar> < 16
     \<and> act_xoff s' + act_w s' \<le> 1366 \<and> act_yoff s' + act_h s' \<le> 768
     \<and> act_xoff s' = (1366 - act_w s') div 2 \<and> act_yoff s' = (768 - act_h s') div 2)"
proof -
  have 1: "(0::int) < 1366" and 2: "is_int 1366" and 3: "(0::int) < 768"
    and 4: "(768::int) \<le> 134217727"
    by (simp_all add: arith_defs)
  note 5 = test_env_resolves [of Glvp]
  from init_manglers_aspect_fit [OF 1 2 3 4 5] 1 2 3 4 5 show ?thesis by simp
qed

text \<open>As first stated, for every positive window size, the property fails: at height
  \<open>2^27\<close> the product \<^verbatim>\<open>h * 16\<close> leaves the range of \<^verbatim>\<open>int\<close>, and the handler has no
  defined result.\<close>

theorem init_manglers_aspect_fit_counterexample:
  "init_manglers test_env 1 134217728 init_state = Inl SignedOverflow"
  by (simp add: init_manglers_def arith_defs)

text \<open>
  C2.  With the real \<^verbatim>\<open>glViewport\<close> resolving, the resize handler stores
  \<open>(act_w, act_h, act_xoff, act_yoff) = (1920, 1080, 0, 0)\<close> for the window 1920 x 1080,
  \<open>(1000, 562, 0, 219)\<close> for 1000 x 1000, and \<open>(1600, 900, 200, 0)\<close> for 2000 x 900.
\<close>

theorem init_manglers_concrete_cases:
  assumes "resolved env s Glvp \<noteq> NULL"
  shows "(\<exists>s'. init_manglers env 1920 1080 s = Inr s'
            \<and> act_w s' = 1920 \<and> act_h s' = 1080 \<and> act_xoff s' = 0 \<and> act_yoff s' = 0)
       \<and> (\<exists>s'. init_manglers env 1000 1000 s = Inr s'
            \<and> act_w s' = 1000 \<and> act_h s' = 562 \<and> act_yoff s' = 219 \<and> act_xoff s' = 0)
       \<and> (\<exists>s'. init_manglers env 2000 900 s = Inr s'
            \<and> act_h s' = 900 \<and> act_w s' = 1600 \<and> act_xoff s' = 200 \<and> act_yoff s' = 0)"
proof -
  have "init_manglers env 1920 1080 s =
     Inr (emit (Call (resolved env s Glvp) [VInt 0, VInt 0, VInt 1920, VInt 1080])
            ((resolve env Glvp s)\<lparr>act_w := 1920, act_h := 1080, act_yoff := 0, act_xoff := 0\<rparr>))"
    by (rule init_manglers_exact) (use assms in \<open>simp_all add: arith_defs\<close>)
  then have a: "\<exists>s'. init_manglers env 1920 1080 s = Inr s'
            \<and> act_w s' = 1920 \<and> act_h s' = 1080 \<and> act_xoff s' = 0 \<and> act_yoff s' = 0"
    by simp
  have "init_manglers env 1000 1000 s =
     Inr (emit (Call (resolved env s Glvp)
                  [VInt 0, VInt ((1000 - 1000 * 9 div 16) div 2), VInt 1000,
                   VInt (1000 * 9 div 16)])
            ((resolve env Glvp s)\<lparr>act_w := 1000, act_h := 1000 * 9 div 16,
               act_yoff := (1000 - 1000 * 9 div 16) div 2, act_xoff := 0\<rparr>))"
    by (rule init_manglers_narrow) (use assms in \<open>simp_all add: arith_defs\<close>)
  then have b: "\<exists>s'. init_manglers env 1000 1000 s = Inr s'
            \<and> act_w s' = 1000 \<and> act_h s' = 562 \<and> act_yoff s' = 219 \<and> act_xoff s' = 0"
    by simp
  have "init_manglers env 2000 900 s =
     Inr (emit (Call (resolved env s Glvp)
                  [VInt ((2000 - 900 * 16 div 9) div 2), VInt 0, VInt (900 * 16 div 9),
                   VInt 900])
            ((resolve env Glvp s)\<lparr>act_w := 900 * 16 div 9, act_h := 900,
               act_yoff := 0, act_xoff := (2000 - 900 * 16 div 9) div 2\<rparr>))"
    by (rule init_manglers_wide) (use assms in \<open>simp_all add: arith_defs\<close>)
  then have c: "\<exists>s'. init_manglers env 2000 900 s = Inr s'
            \<and> act_h s' = 900 \<and> act_w s' = 1600 \<and> act_xoff s' = 200 \<and> act_yoff s' = 0"
    by simp
  from a b c show ?thesis by (intro conjI)
qed

theorem init_manglers_concrete_cases_witness:
  "resolved test_env init_state Glvp \<noteq> NULL
   \<and> (\<exists>s'. init_manglers test_env 1920 1080 init_state = Inr s'
            \<and> act_w s' = 1920 \<and> act_h s' = 1080 \<and> act_xoff s' = 0 \<and> act_yoff s' = 0)
   \<and> (\<exists>s'. init_manglers test_env 1000 1000 init_state = Inr s'
            \<and> act_w s' = 1000 \<and> act_h s' = 562 \<and> act_yoff s' = 219 \<and> act_xoff s' = 0)
   \<and> (\<exists>s'. init_manglers test_env 2000 900 init_state = Inr s'
            \<and> act_h s' = 900 \<and> act_w s' = 1600 \<and> act_xoff s' = 200 \<and> act_yoff s' = 0)"
  using init_manglers_concrete_cases [OF test_env_resolves [of Glvp]] test_env_resolves [of Glvp]
  by (intro conjI) simp_all

section \<open>Audio\<close>



text \<open>
  C3.  On every invocation of \<open>fake_callback\<close> with the application's callback
  registered (the stored pointer is not null), the combined available/delay query is
  performed exactly once, whatever it answers; if the delay it leaves is strictly below
  \<open>FIXDELAY\<close> the stored callback is called exactly once, with the same handler
  argument, and if the delay is at or above \<open>FIXDELAY\<close> no call is made at all.
\<close>

theorem fake_callback_trigger:
  assumes "fr_callback s \<noteq> NULL"
  shows "\<exists>s' pcm rc avail delay.
           fake_callback env ahandler s = Inr s'
         \<and> pcm = snd_async_handler_get_pcm env (trace s) ahandler
         \<and> (rc, avail, delay) = snd_pcm_avail_delay env (trace s @ [Get_pcm ahandler pcm]) pcm
         \<and> filter is_query (new_events s s') = [Avail_delay pcm rc avail delay]
         \<and> filter is_call (new_events s s') =
             (if delay < FIXDELAY env then [Call (fr_callback s) [VPtr ahandler]] else [])"
  using assms
  by (cases "snd_pcm_avail_delay env
               (trace s @ [Get_pcm ahandler (snd_async_handler_get_pcm env (trace s) ahandler)])
               (snd_async_handler_get_pcm env (trace s) ahandler)")
     (simp add: fake_callback_def Let_def call_ok new_events_def)

text \<open>A tick with delay 100 under the threshold 1024, with callback \<open>Addr 7\<close>.\<close>

theorem fake_callback_trigger_witness:
  "fr_callback (init_state\<lparr>fr_callback := Addr 7\<rparr>) \<noteq> NULL
   \<and> (\<exists>s' pcm rc avail delay.
           fake_callback test_env 3 (init_state\<lparr>fr_callback := Addr 7\<rparr>) = Inr s'
         \<and> pcm = snd_async_handler_get_pcm test_env
                   (trace (init_state\<lparr>fr_callback := Addr 7\<rparr>)) 3
         \<and> (rc, avail, delay) =
             snd_pcm_avail_delay test_env
               (trace (init_state\<lparr>fr_callback := Addr 7\<rparr>) @ [Get_pcm 3 pcm]) pcm
         \<and> filter is_query (new_events (init_state\<lparr>fr_callback := Addr 7\<rparr>) s') =
             [Avail_delay pcm rc avail delay]
         \<and> filter is_call (new_events (init_state\<lparr>fr_callback := Addr 7\<rparr>) s') =
             (if delay < FIXDELAY test_env
              then [Call (fr_callback (init_state\<lparr>fr_callback := Addr 7\<rparr>)) [VPtr 3]] else []))"
proof -
  have 1: "fr_callback (init_state\<lparr>fr_callback := Addr 7\<rparr>) \<noteq> NULL" by simp
  from fake_callback_trigger [OF 1, of test_env 3] 1 show ?thesis by (intro conjI)
qed

section \<open>Keyboard and mouse\<close>



text \<open>
  C6, as amended.  With the corresponding application callback registered, for every
  mouse-button event \<open>(button, state, x, y)\<close> and every motion event \<open>(x, y)\<close> whose
  differences \<open>x - act_xoff\<close> and \<open>y - act_yoff\<close> are representable in the 32-bit
  \<^verbatim>\<open>long\<close> in which the source computes them, the stored handler is called with exactly
  \<open>(x - act_xoff, y - act_yoff)\<close>, button and state unchanged; with both offsets zero the
  coordinates are forwarded as they came.
\<close>

theorem mouse_remap:
  assumes "is_long (x - act_xoff s)" and "is_long (y - act_yoff s)"
  shows "(fr_mousefunc s \<noteq> NULL \<longrightarrow>
            faked_mousefunc button bstate x y s =
              Inr (emit (Call (fr_mousefunc s)
                     [VInt button, VInt bstate, VInt (x - act_xoff s), VInt (y - act_yoff s)]) s))
       \<and> (fr_motionfunc s \<noteq> NULL \<longrightarrow>
            faked_motionfunc x y s =
              Inr (emit (Call (fr_motionfunc s)
                     [VInt (x - act_xoff s), VInt (y - act_yoff s)]) s))
       \<and> (act_xoff s = 0 \<and> act_yoff s = 0 \<longrightarrow>
            (fr_mousefunc s \<noteq> NULL \<longrightarrow>
               faked_mousefunc button bstate x y s =
                 Inr (emit (Call (fr_mousefunc s) [VInt button, VInt bstate, VInt x, VInt y]) s))
          \<and> (fr_motionfunc s \<noteq> NULL \<longrightarrow>
               faked_motionfunc x y s =
                 Inr (emit (Call (fr_motionfunc s) [VInt x, VInt y]) s)))"
  using assms
  by (auto simp add: faked_mousefunc_def faked_motionfunc_def long_sub_def call_ok)

text \<open>A click at \<open>(640, 360)\<close> in a pillarboxed window with \<open>act_xoff = 200\<close>, and the
  same click with both offsets zero.\<close>

theorem mouse_remap_witness:
  "is_long (640 - act_xoff (init_state\<lparr>act_xoff := 200, fr_mousefunc := Addr 4,
                                        fr_motionfunc := Addr 5\<rparr>))
   \<and> is_long (360 - act_yoff (init_state\<lparr>act_xoff := 200, fr_mousefunc := Addr 4,
                                           fr_motionfunc := Addr 5\<rparr>))
   \<and> fr_mousefunc (init_state\<lparr>act_xoff := 200, fr_mousefunc := Addr 4,
                                fr_motionfunc := Addr 5\<rparr>) \<noteq> NULL
   \<and> fr_motionfunc (init_state\<lparr>act_xoff := 200, fr_mousefunc := Addr 4,
                                 fr_motionfunc := Addr 5\<rparr>) \<noteq> NULL
   \<and> faked_mousefunc 0 1 640 360
        (init_state\<lparr>act_xoff := 200, fr_mousefunc := Addr 4, fr_motionfunc := Addr 5\<rparr>) =
       Inr (emit (Call (Addr 4) [VInt 0, VInt 1, VInt 440, VInt 360])
        (init_state\<lparr>act_xoff := 200, fr_mousefunc := Addr 4, fr_motionfunc := Addr 5\<rparr>))
   \<and> faked_motionfunc 640 360
        (init_state\<lparr>act_xoff := 200, fr_mousefunc := Addr 4, fr_motionfunc := Addr 5\<rparr>) =
       Inr (emit (Call (Addr 5) [VInt 440, VInt 360])
        (init_state\<lparr>act_xoff := 200, fr_mousefunc := Addr 4, fr_motionfunc := Addr 5\<rparr>))
   \<and> faked_mousefunc 0 1 640 360 (init_state\<lparr>fr_mousefunc := Addr 4, fr_motionfunc := Addr 5\<rparr>) =
       Inr (emit (Call (Addr 4) [VInt 0, VInt 1, VInt 640, VInt 360])
        (init_state\<lparr>fr_mousefunc := Addr 4, fr_motionfunc := Addr 5\<rparr>))
   \<and> faked_motionfunc 640 360 (init_state\<lparr>fr_mousefunc := Addr 4, fr_motionfunc := Addr 5\<rparr>) =
       Inr (emit (Call (Addr 5) [VInt 640, VInt 360])
        (init_state\<lparr>fr_mousefunc := Addr 4, fr_motionfunc := Addr 5\<rparr>))"
proof -
  let ?a = "init_state\<lparr>act_xoff := 200, fr_mousefunc := Addr 4, fr_motionfunc := Addr 5\<rparr>"
  let ?b = "init_state\<lparr>fr_mousefunc := Addr 4, fr_motionfunc := Addr 5\<rparr>"
  have a: "is_long (640 - act_xoff ?a)" "is_long (360 - act_yoff ?a)"
    "fr_mousefunc ?a \<noteq> NULL" "fr_motionfunc ?a \<noteq> NULL"
    by (simp_all add: init_state_def arith_defs)
  have b: "is_long (640 - act_xoff ?b)" "is_long (360 - act_yoff ?b)"
    "fr_mousefunc ?b \<noteq> NULL" "fr_motionfunc ?b \<noteq> NULL"
    by (simp_all add: init_state_def arith_defs)
  have c: "act_xoff ?a = 200" "act_yoff ?a = 0" "act_xoff ?b = 0" "act_yoff ?b = 0"
    by (simp_all add: init_state_def)
  have ra: "faked_mousefunc 0 1 640 360 ?a =
       Inr (emit (Call (Addr 4) [VInt 0, VInt 1, VInt 440, VInt 360]) ?a)
     \<and> faked_motionfunc 640 360 ?a = Inr (emit (Call (Addr 5) [VInt 440, VInt 360]) ?a)"
    using mouse_remap [OF a(1,2), of 0 1] a(3,4) c by simp
  have rb: "faked_mousefunc 0 1 640 360 ?b =
       Inr (emit (Call (Addr 4) [VInt 0, VInt 1, VInt 640, VInt 360]) ?b)
     \<and> faked_motionfunc 640 360 ?b = Inr (emit (Call (Addr 5) [VInt 640, VInt 360]) ?b)"
    using mouse_remap [OF b(1,2), of 0 1] b(3,4) c by simp
  from a ra rb show ?thesis by (intro conjI) simp_all
qed

text \<open>As first stated, for every event, the property fails: after a resize to
  1602 x 900 the x-offset is 1, and for the event with \<open>x = - 2^31\<close> the subtraction
  \<^verbatim>\<open>x - act_xoff\<close> leaves the range of \<^verbatim>\<open>long\<close>; the handler receives no defined
  coordinates.\<close>

theorem mouse_remap_counterexample:
  "run test_env
     [GlutMouseFunc (Addr 7), Init_manglers_entry 1602 900,
      Faked_mousefunc_entry 0 0 (- 2147483648) 0] init_state = Inl SignedOverflow"
  by (simp add: shim_defs arith_defs c_div_def test_env_def init_state_def)

section \<open>Suppressed entry points\<close>

text \<open>
  C8.  The shim's exported \<^verbatim>\<open>glViewport\<close> and \<^verbatim>\<open>glutReshapeWindow\<close> are no-ops for
  every argument value: they return at once with the whole process state, its trace
  included, unchanged, so no lookup is performed and nothing is forwarded to the real
  entry points.
\<close>

theorem viewport_reshape_suppressed:
  "glViewport x y width height s = Inr s
   \<and> glutReshapeWindow width height s = Inr s
   \<and> exec env (GlViewport x y width height) s = Inr s
   \<and> exec env (GlutReshapeWindow width height) s = Inr s
   \<and> new_events s s = []"
  by (simp add: glViewport_def glutReshapeWindow_def new_events_def)

section \<open>Whole runs\<close>

subsection \<open>Each entry is at most one lazy resolution followed by a quiet stretch\<close>

lemma quiet_refl: "quiet s s"
  by (simp add: quiet_def)

lemma snd_pcm_open_shape:
  "snd_pcm_open env pcm name stream mode s = Inr (r, s') \<Longrightarrow>
     quiet (resolve env Real_snd_pcm_open s) s'"
  by (auto simp: snd_pcm_open_def Let_def quiet_def call_def emit_def
        split: sum.splits fptr.splits)

lemma snd_async_add_pcm_handler_shape:
  "snd_async_add_pcm_handler env handler pcm callback private_data s = Inr (r, s') \<Longrightarrow>
     quiet (resolve env Real_snd_async_add_pcm_handler s) s'"
  by (auto simp: snd_async_add_pcm_handler_def Let_def quiet_def call_def emit_def
        split: sum.splits fptr.splits)

lemma fake_callback_shape: "fake_callback env ahandler s = Inr s' \<Longrightarrow> quiet s s'"
  by (auto simp: fake_callback_def Let_def quiet_def call_def emit_def
        split: prod.splits if_splits fptr.splits)

lemma init_manglers_shape: "init_manglers env w h s = Inr s' \<Longrightarrow> quiet (resolve env Glvp s) s'"
  by (auto simp: init_manglers_def Let_def quiet_def call_def emit_def
        split: sum.splits if_splits fptr.splits)

lemma glutReshapeFunc_shape:
  "glutReshapeFunc env func s = Inr s' \<Longrightarrow> quiet (resolve env Real_glutReshapeFunc s) s'"
  by (auto simp: glutReshapeFunc_def Let_def quiet_def call_def emit_def split: fptr.splits)

lemma faked_kbfunc_shape: "faked_kbfunc env key x y s = Inr s' \<Longrightarrow> quiet (resolve env Glrw s) s'"
  by (auto simp: faked_kbfunc_def Let_def quiet_def call_def emit_def
        split: sum.splits if_splits fptr.splits)

lemma glutKeyboardFunc_shape:
  "glutKeyboardFunc env func s = Inr s' \<Longrightarrow> quiet (resolve env Real_glutKeyboardFunc s) s'"
  by (auto simp: glutKeyboardFunc_def Let_def quiet_def call_def emit_def split: fptr.splits)

lemma faked_mousefunc_shape: "faked_mousefunc button bstate x y s = Inr s' \<Longrightarrow> quiet s s'"
  by (auto simp: faked_mousefunc_def quiet_def call_def emit_def split: sum.splits fptr.splits)

lemma faked_motionfunc_shape: "faked_motionfunc x y s = Inr s' \<Longrightarrow> quiet s s'"
  by (auto simp: faked_motionfunc_def quiet_def call_def emit_def split: sum.splits fptr.splits)

lemma glutMouseFunc_shape:
  "glutMouseFunc env func s = Inr s' \<Longrightarrow> quiet (resolve env Real_glutMouseFunc s) s'"
  by (auto simp: glutMouseFunc_def Let_def quiet_def call_def emit_def split: fptr.splits)

lemma glutPassiveMotionFunc_shape:
  "glutPassiveMotionFunc env func s = Inr s' \<Longrightarrow>
     quiet (resolve env Real_glutPassiveMotionFunc s) s'"
  by (auto simp: glutPassiveMotionFunc_def Let_def quiet_def call_def emit_def split: fptr.splits)

lemma exec_shape:
  assumes "exec env c s = Inr s'"
  shows "quiet s s' \<or> (\<exists>k. quiet (resolve env k s) s')"
proof (cases c)
  case (Snd_pcm_open pcm name stream mode)
  with assms obtain r where "snd_pcm_open env pcm name stream mode s = Inr (r, s')"
    by (cases "snd_pcm_open env pcm name stream mode s") auto
  then show ?thesis by (blast dest: snd_pcm_open_shape)
next
  case (Snd_async_add_pcm_handler handler pcm callback private_data)
  with assms obtain r where
    "snd_async_add_pcm_handler env handler pcm callback private_data s = Inr (r, s')"
    by (cases "snd_async_add_pcm_handler env handler pcm callback private_data s") auto
  then show ?thesis by (blast dest: snd_async_add_pcm_handler_shape)
next
  case (GlViewport x y width height)
  with assms show ?thesis by (simp add: glViewport_def quiet_refl)
next
  case (GlutReshapeWindow width height)
  with assms show ?thesis by (simp add: glutReshapeWindow_def quiet_refl)
qed (use assms in \<open>auto dest: fake_callback_shape init_manglers_shape glutReshapeFunc_shape
      faked_kbfunc_shape glutKeyboardFunc_shape faked_mousefunc_shape faked_motionfunc_shape
      glutMouseFunc_shape glutPassiveMotionFunc_shape\<close>)


subsection \<open>Cache slots along a run\<close>

lemma resolve_keeps_slot: "cache s k \<noteq> NULL \<Longrightarrow> cache (resolve env k' s) k = cache s k"
  by (auto simp: resolve_def Let_def)

lemma resolve_no_lookup:
  "cache s k \<noteq> NULL \<Longrightarrow>
     \<exists>evs. trace (resolve env k' s) = trace s @ evs \<and> filter (is_lookup_of (symbol k)) evs = []"
  by (cases "k' = k") (auto simp: trace_resolve symbol_inj)

lemma quiet_no_lookup:
  "quiet s s' \<Longrightarrow> \<exists>evs. trace s' = trace s @ evs \<and> filter (is_lookup_of n) evs = []"
proof -
  have "filter is_lookup evs = [] \<Longrightarrow> filter (is_lookup_of n) evs = []" for evs
  proof (induction evs)
    case (Cons e evs)
    then show ?case by (cases e) (auto split: if_splits)
  qed simp
  then show "quiet s s' \<Longrightarrow> ?thesis" by (auto simp: quiet_def)
qed

lemma quiet_no_populates:
  "quiet s s' \<Longrightarrow> filter (populates n) (trace s') = filter (populates n) (trace s)"
proof -
  have "filter is_lookup evs = [] \<Longrightarrow> filter (populates n) evs = []" for evs
  proof (induction evs)
    case (Cons e evs)
    then show ?case by (cases e) (auto split: if_splits)
  qed simp
  then show "quiet s s' \<Longrightarrow> ?thesis" by (auto simp: quiet_def)
qed

lemma once_resolve: "once k s \<Longrightarrow> once k (resolve env k' s)"
  by (cases "k' = k") (auto simp: once_def resolve_def Let_def emit_def symbol_inj)

lemma once_quiet: "once k s \<Longrightarrow> quiet s s' \<Longrightarrow> once k s'"
  using quiet_no_populates [of s s' "symbol k"] by (simp add: once_def quiet_def)

lemma exec_once: "exec env c s = Inr s' \<Longrightarrow> once k s \<Longrightarrow> once k s'"
  using exec_shape [of env c s s'] by (auto intro: once_quiet once_resolve)

lemma run_once: "run env cs s = Inr s' \<Longrightarrow> once k s \<Longrightarrow> once k s'"
proof (induction cs arbitrary: s)
  case (Cons c cs)
  then show ?case by (cases "exec env c s") (auto dest: exec_once)
qed simp

lemma exec_stable:
  assumes "exec env c s = Inr s'" and "cache s k \<noteq> NULL"
  shows "cache s' k = cache s k
       \<and> (\<exists>evs. trace s' = trace s @ evs \<and> filter (is_lookup_of (symbol k)) evs = [])"
proof -
  from exec_shape [OF assms(1)] consider "quiet s s'" | k' where "quiet (resolve env k' s) s'"
    by blast
  then show ?thesis
  proof cases
    case 1
    then show ?thesis using quiet_no_lookup [OF 1] by (simp add: quiet_def)
  next
    case 2
    from quiet_no_lookup [OF 2, of "symbol k"] resolve_no_lookup [OF assms(2), of env k']
    have "\<exists>evs. trace s' = trace s @ evs \<and> filter (is_lookup_of (symbol k)) evs = []"
      by auto
    moreover have "cache s' k = cache s k"
      using 2 resolve_keeps_slot [OF assms(2)] by (simp add: quiet_def)
    ultimately show ?thesis by simp
  qed
qed

lemma run_stable:
  "run env cs s = Inr s' \<Longrightarrow> cache s k \<noteq> NULL \<Longrightarrow>
     cache s' k = cache s k
   \<and> (\<exists>evs. trace s' = trace s @ evs \<and> filter (is_lookup_of (symbol k)) evs = [])"
proof (induction cs arbitrary: s)
  case Nil
  then show ?case by simp
next
  case (Cons c cs)
  from Cons.prems obtain s1 where 1: "exec env c s = Inr s1" and 2: "run env cs s1 = Inr s'"
    by (cases "exec env c s") auto
  from exec_stable [OF 1 Cons.prems(2)] obtain evs1 where
    a: "cache s1 k = cache s k" "trace s1 = trace s @ evs1"
       "filter (is_lookup_of (symbol k)) evs1 = []" by blast
  with Cons.prems(2) have "cache s1 k \<noteq> NULL" by simp
  from Cons.IH [OF 2 this] obtain evs2 where
    b: "cache s' k = cache s1 k" "trace s' = trace s1 @ evs2"
       "filter (is_lookup_of (symbol k)) evs2 = []" by blast
  from a b show ?case by simp
qed

subsection \<open>Calls through a filled slot\<close>

lemma snd_pcm_open_cached:
  "cache s Real_snd_pcm_open \<noteq> NULL \<Longrightarrow>
     snd_pcm_open env pcm name stream mode s =
       Inr (returns env (trace s) (cache s Real_snd_pcm_open)
              [VPtr pcm, VStr ''default'', VInt stream, VInt mode],
            emit (Call (cache s Real_snd_pcm_open)
                    [VPtr pcm, VStr ''default'', VInt stream, VInt mode]) s)"
  by (simp add: snd_pcm_open_def Let_def resolve_cached call_ok)

lemma snd_async_add_pcm_handler_cached:
  "cache s Real_snd_async_add_pcm_handler \<noteq> NULL \<Longrightarrow>
     snd_async_add_pcm_handler env handler pcm callback private_data s =
       Inr (returns env (trace s) (cache s Real_snd_async_add_pcm_handler)
              [VPtr handler, VPtr pcm, VOwn Fake_callback, VPtr private_data],
            emit (Call (cache s Real_snd_async_add_pcm_handler)
                    [VPtr handler, VPtr pcm, VOwn Fake_callback, VPtr private_data])
              (s\<lparr>fr_callback := callback\<rparr>))"
  by (simp add: snd_async_add_pcm_handler_def Let_def resolve_cached call_ok)

lemma init_manglers_cached:
  "cache s Glvp \<noteq> NULL \<Longrightarrow> init_manglers env w h s = Inr s2 \<Longrightarrow>
     new_events s s2 =
       [Call (cache s Glvp)
          [VInt (act_xoff s2), VInt (act_yoff s2), VInt (act_w s2), VInt (act_h s2)]]
     \<and> cache s2 = cache s"
  by (auto simp: init_manglers_def Let_def resolve_cached call_def emit_def new_events_def
        split: sum.splits if_splits fptr.splits)

lemma init_manglers_returns:
  assumes "0 < w" "is_int w" "0 < h" "h \<le> 134217727" "resolved env s Glvp \<noteq> NULL"
  shows "\<exists>s2. init_manglers env w h s = Inr s2"
proof -
  consider (exact) "w = h * 16 div 9" | (narrow) "w < h * 16 div 9" | (wide) "h * 16 div 9 < w"
    by linarith
  then show ?thesis
  proof cases
    case exact
    show ?thesis unfolding init_manglers_exact [OF assms exact] by simp
  next
    case narrow
    show ?thesis unfolding init_manglers_narrow [OF assms narrow] by simp
  next
    case wide
    show ?thesis unfolding init_manglers_wide [OF assms wide] by simp
  qed
qed

lemma glutReshapeFunc_cached:
  "cache s Real_glutReshapeFunc \<noteq> NULL \<Longrightarrow>
     glutReshapeFunc env func s =
       Inr (emit (Call (cache s Real_glutReshapeFunc) [VOwn Init_manglers]) s)"
  by (simp add: glutReshapeFunc_def Let_def resolve_cached call_ok)

lemma faked_kbfunc_cached:
  "cache s Glrw \<noteq> NULL \<Longrightarrow>
     faked_kbfunc env key x y s =
       (if key = CHR ''q'' then Inr (emit LeaveMainLoop s)
        else if key = CHR ''f'' then
          (if fs s \<noteq> 0
           then Inr ((emit (Call (cache s Glrw) [VInt 1280, VInt 720]) s)\<lparr>fs := 0\<rparr>)
           else Inr ((emit FullScreen s)\<lparr>fs := 1\<rparr>))
        else call (fr_kbfunc s) [VInt (of_char key), VInt x, VInt y] s)"
  by (simp add: faked_kbfunc_def Let_def resolve_cached call_ok)

lemma glutKeyboardFunc_cached:
  "cache s Real_glutKeyboardFunc \<noteq> NULL \<Longrightarrow>
     glutKeyboardFunc env func s =
       Inr (emit (Call (cache s Real_glutKeyboardFunc) [VOwn Faked_kbfunc])
              (s\<lparr>fr_kbfunc := func\<rparr>))"
  by (simp add: glutKeyboardFunc_def Let_def resolve_cached call_ok)

lemma glutMouseFunc_cached:
  "cache s Real_glutMouseFunc \<noteq> NULL \<Longrightarrow>
     glutMouseFunc env func s =
       Inr (emit (Call (cache s Real_glutMouseFunc) [VOwn Faked_mousefunc])
              (s\<lparr>fr_mousefunc := func\<rparr>))"
  by (simp add: glutMouseFunc_def Let_def resolve_cached call_ok)

lemma glutPassiveMotionFunc_cached:
  "cache s Real_glutPassiveMotionFunc \<noteq> NULL \<Longrightarrow>
     glutPassiveMotionFunc env func s =
       Inr (emit (Call (cache s Real_glutPassiveMotionFunc) [VOwn Faked_motionfunc])
              (s\<lparr>fr_motionfunc := func\<rparr>))"
  by (simp add: glutPassiveMotionFunc_def Let_def resolve_cached call_ok)

text \<open>
  C7.  For every cache slot \<open>k\<close>: once the slot holds a non-null pointer, no run of
  entries into the shim changes it or looks its symbol up again; over the whole life of
  a process, from the initial state, at most one lookup fills the slot.  Every function
  with a slot, once the slot is filled, performs no lookup and makes its call to the real
  entry point through the cached pointer: the six interposed functions
  \<^verbatim>\<open>snd_pcm_open\<close>, \<^verbatim>\<open>snd_async_add_pcm_handler\<close>, \<^verbatim>\<open>glutReshapeFunc\<close>,
  \<^verbatim>\<open>glutKeyboardFunc\<close>, \<^verbatim>\<open>glutMouseFunc\<close> and \<^verbatim>\<open>glutPassiveMotionFunc\<close> then do
  nothing but that call (and the store of the callback they register), and so do the two
  internal handlers \<open>init_manglers\<close> (for \<^verbatim>\<open>glViewport\<close>) and \<open>faked_kbfunc\<close> (for
  \<^verbatim>\<open>glutReshapeWindow\<close>).
\<close>

theorem cache_slot_resolved_once:
  "(run env cs s = Inr s' \<and> cache s k \<noteq> NULL \<longrightarrow>
      cache s' k = cache s k \<and> filter (is_lookup_of (symbol k)) (new_events s s') = [])
 \<and> (run env cs init_state = Inr s' \<longrightarrow>
      length (filter (populates (symbol k)) (trace s')) \<le> 1)
 \<and> (cache s k \<noteq> NULL \<longrightarrow> resolved env s k = cache s k)
 \<and> (cache s Real_snd_pcm_open \<noteq> NULL \<longrightarrow>
      snd_pcm_open env pcm name stream mode s =
        Inr (returns env (trace s) (cache s Real_snd_pcm_open)
               [VPtr pcm, VStr ''default'', VInt stream, VInt mode],
             emit (Call (cache s Real_snd_pcm_open)
                     [VPtr pcm, VStr ''default'', VInt stream, VInt mode]) s))
 \<and> (cache s Real_snd_async_add_pcm_handler \<noteq> NULL \<longrightarrow>
      snd_async_add_pcm_handler env handler pcm callback private_data s =
        Inr (returns env (trace s) (cache s Real_snd_async_add_pcm_handler)
               [VPtr handler, VPtr pcm, VOwn Fake_callback, VPtr private_data],
             emit (Call (cache s Real_snd_async_add_pcm_handler)
                     [VPtr handler, VPtr pcm, VOwn Fake_callback, VPtr private_data])
               (s\<lparr>fr_callback := callback\<rparr>)))
 \<and> (cache s Glvp \<noteq> NULL \<and> init_manglers env w h s = Inr s2 \<longrightarrow>
      new_events s s2 =
        [Call (cache s Glvp)
           [VInt (act_xoff s2), VInt (act_yoff s2), VInt (act_w s2), VInt (act_h s2)]]
      \<and> cache s2 = cache s)
 \<and> (cache s Glvp \<noteq> NULL \<and> 0 < w \<and> is_int w \<and> 0 < h \<and> h \<le> 134217727 \<longrightarrow>
      (\<exists>s3. init_manglers env w h s = Inr s3))
 \<and> (cache s Real_glutReshapeFunc \<noteq> NULL \<longrightarrow>
      glutReshapeFunc env func s =
        Inr (emit (Call (cache s Real_glutReshapeFunc) [VOwn Init_manglers]) s))
 \<and> (cache s Glrw \<noteq> NULL \<longrightarrow>
      faked_kbfunc env key x y s =
        (if key = CHR ''q'' then Inr (emit LeaveMainLoop s)
         else if key = CHR ''f'' then
           (if fs s \<noteq> 0
            then Inr ((emit (Call (cache s Glrw) [VInt 1280, VInt 720]) s)\<lparr>fs := 0\<rparr>)
            else Inr ((emit FullScreen s)\<lparr>fs := 1\<rparr>))
         else call (fr_kbfunc s) [VInt (of_char key), VInt x, VInt y] s))
 \<and> (cache s Real_glutKeyboardFunc \<noteq> NULL \<longrightarrow>
      glutKeyboardFunc env func s =
        Inr (emit (Call (cache s Real_glutKeyboardFunc) [VOwn Faked_kbfunc])
               (s\<lparr>fr_kbfunc := func\<rparr>)))
 \<and> (cache s Real_glutMouseFunc \<noteq> NULL \<longrightarrow>
      glutMouseFunc env func s =
        Inr (emit (Call (cache s Real_glutMouseFunc) [VOwn Faked_mousefunc])
               (s\<lparr>fr_mousefunc := func\<rparr>)))
 \<and> (cache s Real_glutPassiveMotionFunc \<noteq> NULL \<longrightarrow>
      glutPassiveMotionFunc env func s =
        Inr (emit (Call (cache s Real_glutPassiveMotionFunc) [VOwn Faked_motionfunc])
               (s\<lparr>fr_motionfunc := func\<rparr>)))"
proof -
  have 1: "cache s' k = cache s k \<and> filter (is_lookup_of (symbol k)) (new_events s s') = []"
    if "run env cs s = Inr s'" "cache s k \<noteq> NULL"
    using run_stable [OF that] by (auto simp: new_events_def)
  have "once k init_state" by (simp add: once_def init_state_def)
  then have 2: "length (filter (populates (symbol k)) (trace s')) \<le> 1"
    if "run env cs init_state = Inr s'"
    using run_once [OF that, of k] by (simp add: once_def)
  have 3: "resolved env s k = cache s k" if "cache s k \<noteq> NULL"
    using that by (simp add: resolved_def resolve_cached)
  have 4: "\<exists>s3. init_manglers env w h s = Inr s3"
    if "cache s Glvp \<noteq> NULL" "0 < w" "is_int w" "0 < h" "h \<le> 134217727"
    using init_manglers_returns [OF that(2-5), of env s] that(1)
    by (simp add: resolved_def resolve_cached)
  show ?thesis
    apply (intro conjI impI)
    subgoal using 1 by blast
    subgoal using 1 by blast
    subgoal using 2 by blast
    subgoal using 3 by blast
    subgoal by (rule snd_pcm_open_cached)
    subgoal by (rule snd_async_add_pcm_handler_cached)
    subgoal using init_manglers_cached [of s env w h s2] by blast
    subgoal using init_manglers_cached [of s env w h s2] by blast
    subgoal using 4 by blast
    subgoal by (rule glutReshapeFunc_cached)
    subgoal by (rule faked_kbfunc_cached)
    subgoal by (rule glutKeyboardFunc_cached)
    subgoal by (rule glutMouseFunc_cached)
    subgoal by (rule glutPassiveMotionFunc_cached)
    done
qed

subsection \<open>The resize handler of the application\<close>



lemma exec_keeps_geometry:
  "exec env c s = Inr s' \<Longrightarrow> \<not> is_resize c \<Longrightarrow>
     act_w s' = act_w s \<and> act_h s' = act_h s \<and> act_xoff s' = act_xoff s \<and> act_yoff s' = act_yoff s"
  by (cases c)
     (auto simp: snd_pcm_open_def snd_async_add_pcm_handler_def fake_callback_def
        glutReshapeFunc_def glViewport_def glutReshapeWindow_def faked_kbfunc_def
        glutKeyboardFunc_def faked_mousefunc_def faked_motionfunc_def glutMouseFunc_def
        glutPassiveMotionFunc_def Let_def call_def
        split: sum.splits if_splits fptr.splits prod.splits)

lemma run_keeps_geometry:
  "run env cs s = Inr s' \<Longrightarrow> \<forall>c \<in> set cs. \<not> is_resize c \<Longrightarrow>
     act_w s' = act_w s \<and> act_h s' = act_h s \<and> act_xoff s' = act_xoff s \<and> act_yoff s' = act_yoff s"
proof (induction cs arbitrary: s)
  case (Cons c cs)
  then show ?case by (cases "exec env c s") (auto dest: exec_keeps_geometry)
qed simp

text \<open>Two calls of \<^verbatim>\<open>snd_pcm_open\<close> in a fresh process: one lookup, the second call
  through the cached pointer; and one call of each function with a slot in a state whose
  slots are all filled.\<close>

theorem cache_slot_resolved_once_witness:
  "run test_env [Snd_pcm_open 5 ''hw'' 0 1]
     (init_state\<lparr>cache := (cache init_state)(Real_snd_pcm_open := Addr 1),
        trace := [Dlsym ''snd_pcm_open'' (Addr 1),
                  Call (Addr 1) [VPtr 5, VStr ''default'', VInt 0, VInt 1]]\<rparr>) =
   Inr (init_state\<lparr>cache := (cache init_state)(Real_snd_pcm_open := Addr 1),
        trace := [Dlsym ''snd_pcm_open'' (Addr 1),
                  Call (Addr 1) [VPtr 5, VStr ''default'', VInt 0, VInt 1],
                  Call (Addr 1) [VPtr 5, VStr ''default'', VInt 0, VInt 1]]\<rparr>)
 \<and> cache (init_state\<lparr>cache := (cache init_state)(Real_snd_pcm_open := Addr 1),
        trace := [Dlsym ''snd_pcm_open'' (Addr 1),
                  Call (Addr 1) [VPtr 5, VStr ''default'', VInt 0, VInt 1]]\<rparr>)
      Real_snd_pcm_open \<noteq> NULL
 \<and> cache (init_state\<lparr>cache := (cache init_state)(Real_snd_pcm_open := Addr 1),
        trace := [Dlsym ''snd_pcm_open'' (Addr 1),
                  Call (Addr 1) [VPtr 5, VStr ''default'', VInt 0, VInt 1],
                  Call (Addr 1) [VPtr 5, VStr ''default'', VInt 0, VInt 1]]\<rparr>)
      Real_snd_pcm_open = Addr 1
 \<and> filter (is_lookup_of (symbol Real_snd_pcm_open))
      (new_events
        (init_state\<lparr>cache := (cache init_state)(Real_snd_pcm_open := Addr 1),
           trace := [Dlsym ''snd_pcm_open'' (Addr 1),
                     Call (Addr 1) [VPtr 5, VStr ''default'', VInt 0, VInt 1]]\<rparr>)
        (init_state\<lparr>cache := (cache init_state)(Real_snd_pcm_open := Addr 1),
           trace := [Dlsym ''snd_pcm_open'' (Addr 1),
                     Call (Addr 1) [VPtr 5, VStr ''default'', VInt 0, VInt 1],
                     Call (Addr 1) [VPtr 5, VStr ''default'', VInt 0, VInt 1]]\<rparr>)) = []
 \<and> run test_env [Snd_pcm_open 5 ''hw'' 0 1, Snd_pcm_open 5 ''hw'' 0 1] init_state =
   Inr (init_state\<lparr>cache := (cache init_state)(Real_snd_pcm_open := Addr 1),
        trace := [Dlsym ''snd_pcm_open'' (Addr 1),
                  Call (Addr 1) [VPtr 5, VStr ''default'', VInt 0, VInt 1],
                  Call (Addr 1) [VPtr 5, VStr ''default'', VInt 0, VInt 1]]\<rparr>)
 \<and> length (filter (populates (symbol Real_snd_pcm_open))
      (trace (init_state\<lparr>cache := (cache init_state)(Real_snd_pcm_open := Addr 1),
        trace := [Dlsym ''snd_pcm_open'' (Addr 1),
                  Call (Addr 1) [VPtr 5, VStr ''default'', VInt 0, VInt 1],
                  Call (Addr 1) [VPtr 5, VStr ''default'', VInt 0, VInt 1]]\<rparr>))) \<le> 1
 \<and> cache warm_state Real_snd_pcm_open \<noteq> NULL
 \<and> cache warm_state Real_snd_async_add_pcm_handler \<noteq> NULL
 \<and> cache warm_state Glvp \<noteq> NULL
 \<and> cache warm_state Real_glutReshapeFunc \<noteq> NULL
 \<and> cache warm_state Glrw \<noteq> NULL
 \<and> cache warm_state Real_glutKeyboardFunc \<noteq> NULL
 \<and> cache warm_state Real_glutMouseFunc \<noteq> NULL
 \<and> cache warm_state Real_glutPassiveMotionFunc \<noteq> NULL
 \<and> resolved test_env warm_state Glvp = Addr 1
 \<and> snd_pcm_open test_env 5 ''hw'' 0 1 warm_state =
      Inr (0, emit (Call (Addr 1) [VPtr 5, VStr ''default'', VInt 0, VInt 1]) warm_state)
 \<and> snd_async_add_pcm_handler test_env 1 5 (Addr 7) 3 warm_state =
      Inr (0, emit (Call (Addr 1) [VPtr 1, VPtr 5, VOwn Fake_callback, VPtr 3])
                (warm_state\<lparr>fr_callback := Addr 7\<rparr>))
 \<and> init_manglers test_env 2000 900 warm_state =
      Inr (emit (Call (Addr 1) [VInt 200, VInt 0, VInt 1600, VInt 900])
             (warm_state\<lparr>act_w := 1600, act_h := 900, act_yoff := 0, act_xoff := 200\<rparr>))
 \<and> new_events warm_state
       (emit (Call (Addr 1) [VInt 200, VInt 0, VInt 1600, VInt 900])
          (warm_state\<lparr>act_w := 1600, act_h := 900, act_yoff := 0, act_xoff := 200\<rparr>)) =
      [Call (Addr 1) [VInt 200, VInt 0, VInt 1600, VInt 900]]
 \<and> (0::int) < 2000 \<and> is_int 2000 \<and> (0::int) < 900 \<and> (900::int) \<le> 134217727
 \<and> (\<exists>s3. init_manglers test_env 2000 900 warm_state = Inr s3)
 \<and> glutReshapeFunc test_env (Addr 42) warm_state =
      Inr (emit (Call (Addr 1) [VOwn Init_manglers]) warm_state)
 \<and> faked_kbfunc test_env CHR ''f'' 10 20 warm_state =
      Inr ((emit (Call (Addr 1) [VInt 1280, VInt 720]) warm_state)\<lparr>fs := 0\<rparr>)
 \<and> glutKeyboardFunc test_env (Addr 9) warm_state =
      Inr (emit (Call (Addr 1) [VOwn Faked_kbfunc]) (warm_state\<lparr>fr_kbfunc := Addr 9\<rparr>))
 \<and> glutMouseFunc test_env (Addr 4) warm_state =
      Inr (emit (Call (Addr 1) [VOwn Faked_mousefunc]) (warm_state\<lparr>fr_mousefunc := Addr 4\<rparr>))
 \<and> glutPassiveMotionFunc test_env (Addr 6) warm_state =
      Inr (emit (Call (Addr 1) [VOwn Faked_motionfunc]) (warm_state\<lparr>fr_motionfunc := Addr 6\<rparr>))"
proof -
  let ?c = "Snd_pcm_open 5 ''hw'' 0 1"
  let ?s1 = "init_state\<lparr>cache := (cache init_state)(Real_snd_pcm_open := Addr 1),
        trace := [Dlsym ''snd_pcm_open'' (Addr 1),
                  Call (Addr 1) [VPtr 5, VStr ''default'', VInt 0, VInt 1]]\<rparr>"
  let ?s2 = "init_state\<lparr>cache := (cache init_state)(Real_snd_pcm_open := Addr 1),
        trace := [Dlsym ''snd_pcm_open'' (Addr 1),
                  Call (Addr 1) [VPtr 5, VStr ''default'', VInt 0, VInt 1],
                  Call (Addr 1) [VPtr 5, VStr ''default'', VInt 0, VInt 1]]\<rparr>"
  let ?w2 = "emit (Call (Addr 1) [VInt 200, VInt 0, VInt 1600, VInt 900])
          (warm_state\<lparr>act_w := 1600, act_h := 900, act_yoff := 0, act_xoff := 200\<rparr>)"
  have 1: "run test_env [?c] ?s1 = Inr ?s2"
    by (simp add: shim_defs test_env_def init_state_def)
  have 2: "cache ?s1 Real_snd_pcm_open \<noteq> NULL" by simp
  have 3: "run test_env [?c, ?c] init_state = Inr ?s2"
    by (simp add: shim_defs test_env_def init_state_def)
  have 4: "cache ?s1 Real_snd_pcm_open = Addr 1" by simp
  note ta = cache_slot_resolved_once [where env = test_env and cs = "[?c]" and s = ?s1
      and s' = ?s2 and k = Real_snd_pcm_open]
  from ta [THEN conjunct1, THEN mp, OF conjI [OF 1 2]] 4
  have a: "cache ?s2 Real_snd_pcm_open = Addr 1
         \<and> filter (is_lookup_of (symbol Real_snd_pcm_open)) (new_events ?s1 ?s2) = []"
    by simp
  note tb = cache_slot_resolved_once [where env = test_env and cs = "[?c, ?c]"
      and s' = ?s2 and k = Real_snd_pcm_open]
  from tb [THEN conjunct2, THEN conjunct1, THEN mp, OF 3]
  have b: "length (filter (populates (symbol Real_snd_pcm_open)) (trace ?s2)) \<le> 1" .
  have cw: "cache warm_state k = Addr 1" for k
    by (simp add: warm_state_def)
  have nn: "cache warm_state k \<noteq> NULL" for k
    by (simp add: cw)
  have rt: "returns test_env hist f args = 0" for hist f args
    by (simp add: test_env_def)
  have fw: "fs warm_state \<noteq> 0"
    by (simp add: warm_state_def)
  have 5: "(0::int) < 2000" and 6: "is_int 2000" and 7: "(0::int) < 900"
    and 8: "(900::int) \<le> 134217727"
    by (simp_all add: arith_defs)
  have 9: "init_manglers test_env 2000 900 warm_state = Inr ?w2"
    by (simp add: init_manglers_def resolve_def call_def emit_def Let_def arith_defs c_div_def
          warm_state_def init_state_def)
  note tc = cache_slot_resolved_once [where env = test_env and s = warm_state and k = Glvp
      and pcm = 5 and name = "''hw''" and stream = 0 and mode = 1
      and handler = 1 and callback = "Addr 7" and private_data = 3
      and w = 2000 and h = 900 and ?s2.0 = ?w2 and key = "CHR ''f''" and x = 10 and y = 20]
  note r = tc [THEN conjunct2, THEN conjunct2]
  from r [THEN conjunct1, THEN mp, OF nn]
  have c3: "resolved test_env warm_state Glvp = Addr 1" by (simp add: cw)
  note r = r [THEN conjunct2]
  from r [THEN conjunct1, THEN mp, OF nn]
  have c4: "snd_pcm_open test_env 5 ''hw'' 0 1 warm_state =
      Inr (0, emit (Call (Addr 1) [VPtr 5, VStr ''default'', VInt 0, VInt 1]) warm_state)"
    by (simp add: cw rt)
  note r = r [THEN conjunct2]
  from r [THEN conjunct1, THEN mp, OF nn]
  have c5: "snd_async_add_pcm_handler test_env 1 5 (Addr 7) 3 warm_state =
      Inr (0, emit (Call (Addr 1) [VPtr 1, VPtr 5, VOwn Fake_callback, VPtr 3])
                (warm_state\<lparr>fr_callback := Addr 7\<rparr>))"
    by (simp add: cw rt)
  note r = r [THEN conjunct2]
  from r [THEN conjunct1, THEN mp, OF conjI [OF nn 9]]
  have c6: "new_events warm_state ?w2 = [Call (Addr 1) [VInt 200, VInt 0, VInt 1600, VInt 900]]"
    by (simp add: cw)
  note r = r [THEN conjunct2]
  from r [THEN conjunct1, THEN mp, OF conjI [OF nn conjI [OF 5 conjI [OF 6 conjI [OF 7 8]]]]]
  have c7: "\<exists>s3. init_manglers test_env 2000 900 warm_state = Inr s3" .
  note r = r [THEN conjunct2]
  from r [THEN conjunct1, THEN mp, OF nn, of "Addr 42"]
  have c8: "glutReshapeFunc test_env (Addr 42) warm_state =
      Inr (emit (Call (Addr 1) [VOwn Init_manglers]) warm_state)"
    by (simp add: cw)
  note r = r [THEN conjunct2]
  from r [THEN conjunct1, THEN mp, OF nn] fw
  have c9: "faked_kbfunc test_env CHR ''f'' 10 20 warm_state =
      Inr ((emit (Call (Addr 1) [VInt 1280, VInt 720]) warm_state)\<lparr>fs := 0\<rparr>)"
    by (simp add: cw)
  note r = r [THEN conjunct2]
  from r [THEN conjunct1, THEN mp, OF nn, of "Addr 9"]
  have c10: "glutKeyboardFunc test_env (Addr 9) warm_state =
      Inr (emit (Call (Addr 1) [VOwn Faked_kbfunc]) (warm_state\<lparr>fr_kbfunc := Addr 9\<rparr>))"
    by (simp add: cw)
  note r = r [THEN conjunct2]
  from r [THEN conjunct1, THEN mp, OF nn, of "Addr 4"]
  have c11: "glutMouseFunc test_env (Addr 4) warm_state =
      Inr (emit (Call (Addr 1) [VOwn Faked_mousefunc]) (warm_state\<lparr>fr_mousefunc := Addr 4\<rparr>))"
    by (simp add: cw)
  note r = r [THEN conjunct2]
  from r [THEN mp, OF nn, of "Addr 6"]
  have c12: "glutPassiveMotionFunc test_env (Addr 6) warm_state =
      Inr (emit (Call (Addr 1) [VOwn Faked_motionfunc]) (warm_state\<lparr>fr_motionfunc := Addr 6\<rparr>))"
    by (simp add: cw)
  from a have a1: "cache ?s2 Real_snd_pcm_open = Addr 1" by (rule conjunct1)
  from a have a2: "filter (is_lookup_of (symbol Real_snd_pcm_open)) (new_events ?s1 ?s2) = []"
    by (rule conjunct2)
  show ?thesis
    by (intro conjI)
      (rule 1 2 3 a1 a2 b nn c3 c4 c5 9 c6 5 6 7 8 c7 c8 c9 c10 c11 c12)+
qed



subsection \<open>Letterboxing on at most one axis\<close>

text \<open>
  C10, as amended.  After every call of the resize handler with \<open>w\<close> a positive
  \<^verbatim>\<open>int\<close> and \<open>0 < h \<le> 134217727\<close> (so that \<^verbatim>\<open>h * 16\<close> fits a 32-bit \<^verbatim>\<open>int\<close>), the
  real \<^verbatim>\<open>glViewport\<close> resolving, at least one of \<open>act_xoff\<close> and \<open>act_yoff\<close> is zero
  and all four stored geometry values are nonnegative.  At process start both offsets are
  zero, and they remain zero along every run without a resize event.
\<close>

theorem init_manglers_offsets:
  assumes "0 < w" "is_int w" "0 < h" "h \<le> 134217727" "resolved env s Glvp \<noteq> NULL"
  shows "(\<exists>s'. init_manglers env w h s = Inr s'
            \<and> (act_xoff s' = 0 \<or> act_yoff s' = 0)
            \<and> 0 \<le> act_w s' \<and> 0 \<le> act_h s' \<and> 0 \<le> act_xoff s' \<and> 0 \<le> act_yoff s')
       \<and> act_xoff init_state = 0 \<and> act_yoff init_state = 0
       \<and> (run env cs init_state = Inr s1 \<and> list_all (\<lambda>c. \<not> is_resize c) cs \<longrightarrow>
            act_xoff s1 = 0 \<and> act_yoff s1 = 0)"
proof -
  have a: "\<exists>s'. init_manglers env w h s = Inr s'
            \<and> (act_xoff s' = 0 \<or> act_yoff s' = 0)
            \<and> 0 \<le> act_w s' \<and> 0 \<le> act_h s' \<and> 0 \<le> act_xoff s' \<and> 0 \<le> act_yoff s'"
  proof -
    consider (exact) "w = h * 16 div 9" | (narrow) "w < h * 16 div 9" | (wide) "h * 16 div 9 < w"
      by linarith
    then show ?thesis
    proof cases
      case exact
      show ?thesis
        unfolding init_manglers_exact [OF assms exact] using assms(1,3) by simp
    next
      case narrow
      have "0 \<le> w * 9 div 16" "0 \<le> (h - w * 9 div 16) div 2" using narrow assms(1) by auto
      then show ?thesis
        unfolding init_manglers_narrow [OF assms narrow] using assms(1) by simp
    next
      case wide
      have "0 \<le> h * 16 div 9" "0 \<le> (w - h * 16 div 9) div 2" using wide assms(3) by auto
      then show ?thesis
        unfolding init_manglers_wide [OF assms wide] using assms(3) by simp
    qed
  qed
  have b: "act_xoff init_state = 0 \<and> act_yoff init_state = 0"
    by (simp add: init_state_def)
  have c: "act_xoff s1 = 0 \<and> act_yoff s1 = 0"
    if "run env cs init_state = Inr s1" "list_all (\<lambda>c. \<not> is_resize c) cs"
    using run_keeps_geometry [OF that(1)] that(2) b by (simp add: list_all_iff)
  from a b c show ?thesis by blast
qed

text \<open>The window 2000 x 900 of a fresh process, and a run of registrations and input
  events without a resize.\<close>

theorem init_manglers_offsets_witness:
  "(0::int) < 2000 \<and> is_int 2000 \<and> (0::int) < 900 \<and> (900::int) \<le> 134217727
   \<and> resolved test_env init_state Glvp \<noteq> NULL
   \<and> (\<exists>s'. init_manglers test_env 2000 900 init_state = Inr s'
            \<and> (act_xoff s' = 0 \<or> act_yoff s' = 0)
            \<and> 0 \<le> act_w s' \<and> 0 \<le> act_h s' \<and> 0 \<le> act_xoff s' \<and> 0 \<le> act_yoff s')
   \<and> list_all (\<lambda>c. \<not> is_resize c)
        [GlutMouseFunc (Addr 4), Faked_mousefunc_entry 0 1 640 360, GlViewport 0 0 640 480]
   \<and> run test_env
        [GlutMouseFunc (Addr 4), Faked_mousefunc_entry 0 1 640 360, GlViewport 0 0 640 480]
        init_state =
       Inr (init_state\<lparr>cache := (cache init_state)(Real_glutMouseFunc := Addr 1),
              fr_mousefunc := Addr 4,
              trace := [Dlsym ''glutMouseFunc'' (Addr 1),
                        Call (Addr 1) [VOwn Faked_mousefunc],
                        Call (Addr 4) [VInt 0, VInt 1, VInt 640, VInt 360]]\<rparr>)
   \<and> act_xoff (init_state\<lparr>cache := (cache init_state)(Real_glutMouseFunc := Addr 1),
              fr_mousefunc := Addr 4,
              trace := [Dlsym ''glutMouseFunc'' (Addr 1),
                        Call (Addr 1) [VOwn Faked_mousefunc],
                        Call (Addr 4) [VInt 0, VInt 1, VInt 640, VInt 360]]\<rparr>) = 0
   \<and> act_yoff (init_state\<lparr>cache := (cache init_state)(Real_glutMouseFunc := Addr 1),
              fr_mousefunc := Addr 4,
              trace := [Dlsym ''glutMouseFunc'' (Addr 1),
                        Call (Addr 1) [VOwn Faked_mousefunc],
                        Call (Addr 4) [VInt 0, VInt 1, VInt 640, VInt 360]]\<rparr>) = 0"
proof -
  let ?cs = "[GlutMouseFunc (Addr 4), Faked_mousefunc_entry 0 1 640 360, GlViewport 0 0 640 480]"
  let ?s1 = "init_state\<lparr>cache := (cache init_state)(Real_glutMouseFunc := Addr 1),
              fr_mousefunc := Addr 4,
              trace := [Dlsym ''glutMouseFunc'' (Addr 1),
                        Call (Addr 1) [VOwn Faked_mousefunc],
                        Call (Addr 4) [VInt 0, VInt 1, VInt 640, VInt 360]]\<rparr>"
  have 1: "(0::int) < 2000" and 2: "is_int 2000" and 3: "(0::int) < 900"
    and 4: "(900::int) \<le> 134217727"
    by (simp_all add: arith_defs)
  note 5 = test_env_resolves [of Glvp]
  have 6: "list_all (\<lambda>c. \<not> is_resize c) ?cs" by simp
  have 7: "run test_env ?cs init_state = Inr ?s1"
    by (simp add: shim_defs arith_defs test_env_def init_state_def)
  note t = init_manglers_offsets [OF 1 2 3 4 5, of ?cs ?s1]
  from t have a: "\<exists>s'. init_manglers test_env 2000 900 init_state = Inr s'
            \<and> (act_xoff s' = 0 \<or> act_yoff s' = 0)
            \<and> 0 \<le> act_w s' \<and> 0 \<le> act_h s' \<and> 0 \<le> act_xoff s' \<and> 0 \<le> act_yoff s'"
    by (rule conjunct1)
  from t 6 7 have b: "act_xoff ?s1 = 0 \<and> act_yoff ?s1 = 0" by blast
  from 1 2 3 4 5 6 7 a b show ?thesis by (intro conjI) simp_all
qed

text \<open>As first stated, for every positive window size, the property fails: at height
  \<open>2^27\<close> the handler overflows before it stores anything.\<close>

theorem init_manglers_offsets_counterexample:
  "run test_env [Init_manglers_entry 1920 134217728] init_state = Inl SignedOverflow"
  by (simp add: init_manglers_def arith_defs)

end
